theory Spec2Isabelle
  imports Complex_Main "HOL-Library.Word"
begin

unbundle bit_operations_syntax

section \<open>Types and constants of tsl2561.h and tsl2561.c\<close>

text \<open>
  The driver reports results as \<open>esp_err_t\<close>, a signed integer code of the ESP-IDF
  environment, whose \<open>esp_err.h\<close> defines \<open>ESP_OK\<close> as 0 and \<open>ESP_FAIL\<close> as -1.
  Only these two codes, which the driver itself names, are fixed here; every other
  integer is a transport error code handed through from the bus.
\<close>

type_synonym esp_err_t = int

definition ESP_OK :: esp_err_t where
  "ESP_OK = 0"

definition ESP_FAIL :: esp_err_t where
  "ESP_FAIL = - 1"

text \<open>
  The three enums of the header are C enums without negative enumerators: objects of
  these types hold any unsigned 32-bit value, and the code switches on and compares the
  raw value. They are kept as 32-bit words so that the values the enum does not name
  (an unrecognised integration time, a package type such as \<open>0b0010\<close>) stay inputs of
  the model.
\<close>

type_synonym tsl2561_device_type_t = "32 word"
type_synonym tsl2561_integration_time_t = "32 word"
type_synonym tsl2561_gain_t = "32 word"
type_synonym tsl2561_revision_t = "8 word"
type_synonym tsl2561_visible_t = "16 word"
type_synonym tsl2561_infrared_t = "16 word"

definition TSL2561_DEVICE_TYPE_INVALID :: tsl2561_device_type_t where
  "TSL2561_DEVICE_TYPE_INVALID = 15"

definition TSL2561_DEVICE_TYPE_TSL2560CS :: tsl2561_device_type_t where
  "TSL2561_DEVICE_TYPE_TSL2560CS = 0"

definition TSL2561_DEVICE_TYPE_TSL2561CS :: tsl2561_device_type_t where
  "TSL2561_DEVICE_TYPE_TSL2561CS = 1"

definition TSL2561_DEVICE_TYPE_TSL2560T_FN_CL :: tsl2561_device_type_t where
  "TSL2561_DEVICE_TYPE_TSL2560T_FN_CL = 4"

definition TSL2561_DEVICE_TYPE_TSL2561T_FN_CL :: tsl2561_device_type_t where
  "TSL2561_DEVICE_TYPE_TSL2561T_FN_CL = 5"

definition TSL2561_INTEGRATION_TIME_13MS :: tsl2561_integration_time_t where
  "TSL2561_INTEGRATION_TIME_13MS = 0x00"

definition TSL2561_INTEGRATION_TIME_101MS :: tsl2561_integration_time_t where
  "TSL2561_INTEGRATION_TIME_101MS = 0x01"

definition TSL2561_INTEGRATION_TIME_402MS :: tsl2561_integration_time_t where
  "TSL2561_INTEGRATION_TIME_402MS = 0x02"

definition TSL2561_GAIN_1X :: tsl2561_gain_t where
  "TSL2561_GAIN_1X = 0x00"

definition TSL2561_GAIN_16X :: tsl2561_gain_t where
  "TSL2561_GAIN_16X = 0x10"

text \<open>
  The bus handle \<open>smbus_info_t *\<close> is opaque to the driver, which only stores it and
  hands it on to the transport. It is modelled as the identity of a bound handle.
\<close>

type_synonym smbus_info_ptr = nat

record tsl2561_info_t =
  init :: bool
  powered :: bool
  smbus_info :: smbus_info_ptr
  device_type :: tsl2561_device_type_t
  integration_time :: tsl2561_integration_time_t
  gain :: tsl2561_gain_t

text \<open>
  A pointer \<open>tsl2561_info_t *\<close> is \<open>None\<close> when it is NULL and \<open>Some s\<close> when it
  points to a struct whose fields are \<open>s\<close>.
\<close>

subsection \<open>Fixed-point scales and the calibration coefficients\<close>

definition CH_SCALE :: nat where "CH_SCALE = 10"
definition CH_SCALE_TINT0 :: "32 word" where "CH_SCALE_TINT0 = 0x7517"
definition CH_SCALE_TINT1 :: "32 word" where "CH_SCALE_TINT1 = 0x0FE7"
definition RATIO_SCALE :: nat where "RATIO_SCALE = 9"
definition LUX_SCALE :: nat where "LUX_SCALE = 14"

text \<open>
  The thresholds \<open>K\<close> are compared with the unsigned 32-bit ratio, so they are 32-bit
  words; the intercepts \<open>B\<close> and slopes \<open>M\<close> are assigned to the \<open>int\<close> variables
  \<open>b\<close> and \<open>m\<close>.
\<close>

definition TSL2561_K1T :: "32 word" where "TSL2561_K1T = 0x0040"
definition TSL2561_B1T :: int where "TSL2561_B1T = 0x01F2"
definition TSL2561_M1T :: int where "TSL2561_M1T = 0x01BE"
definition TSL2561_K2T :: "32 word" where "TSL2561_K2T = 0x0080"
definition TSL2561_B2T :: int where "TSL2561_B2T = 0x0214"
definition TSL2561_M2T :: int where "TSL2561_M2T = 0x02D1"
definition TSL2561_K3T :: "32 word" where "TSL2561_K3T = 0x00C0"
definition TSL2561_B3T :: int where "TSL2561_B3T = 0x023F"
definition TSL2561_M3T :: int where "TSL2561_M3T = 0x037B"
definition TSL2561_K4T :: "32 word" where "TSL2561_K4T = 0x0100"
definition TSL2561_B4T :: int where "TSL2561_B4T = 0x0270"
definition TSL2561_M4T :: int where "TSL2561_M4T = 0x03FE"
definition TSL2561_K5T :: "32 word" where "TSL2561_K5T = 0x0138"
definition TSL2561_B5T :: int where "TSL2561_B5T = 0x016F"
definition TSL2561_M5T :: int where "TSL2561_M5T = 0x01FC"
definition TSL2561_K6T :: "32 word" where "TSL2561_K6T = 0x019A"
definition TSL2561_B6T :: int where "TSL2561_B6T = 0x00D2"
definition TSL2561_M6T :: int where "TSL2561_M6T = 0x00FB"
definition TSL2561_K7T :: "32 word" where "TSL2561_K7T = 0x029A"
definition TSL2561_B7T :: int where "TSL2561_B7T = 0x0018"
definition TSL2561_M7T :: int where "TSL2561_M7T = 0x0012"
definition TSL2561_K8T :: "32 word" where "TSL2561_K8T = 0x029A"
definition TSL2561_B8T :: int where "TSL2561_B8T = 0x0000"
definition TSL2561_M8T :: int where "TSL2561_M8T = 0x0000"

definition TSL2561_K1C :: "32 word" where "TSL2561_K1C = 0x0043"
definition TSL2561_B1C :: int where "TSL2561_B1C = 0x0204"
definition TSL2561_M1C :: int where "TSL2561_M1C = 0x01AD"
definition TSL2561_K2C :: "32 word" where "TSL2561_K2C = 0x0085"
definition TSL2561_B2C :: int where "TSL2561_B2C = 0x0228"
definition TSL2561_M2C :: int where "TSL2561_M2C = 0x02C1"
definition TSL2561_K3C :: "32 word" where "TSL2561_K3C = 0x00C8"
definition TSL2561_B3C :: int where "TSL2561_B3C = 0x0253"
definition TSL2561_M3C :: int where "TSL2561_M3C = 0x0363"
definition TSL2561_K4C :: "32 word" where "TSL2561_K4C = 0x010A"
definition TSL2561_B4C :: int where "TSL2561_B4C = 0x0282"
definition TSL2561_M4C :: int where "TSL2561_M4C = 0x03DF"
definition TSL2561_K5C :: "32 word" where "TSL2561_K5C = 0x014D"
definition TSL2561_B5C :: int where "TSL2561_B5C = 0x0177"
definition TSL2561_M5C :: int where "TSL2561_M5C = 0x01DD"
definition TSL2561_K6C :: "32 word" where "TSL2561_K6C = 0x019A"
definition TSL2561_B6C :: int where "TSL2561_B6C = 0x0101"
definition TSL2561_M6C :: int where "TSL2561_M6C = 0x0127"
definition TSL2561_K7C :: "32 word" where "TSL2561_K7C = 0x029A"
definition TSL2561_B7C :: int where "TSL2561_B7C = 0x0037"
definition TSL2561_M7C :: int where "TSL2561_M7C = 0x002B"
definition TSL2561_K8C :: "32 word" where "TSL2561_K8C = 0x029A"
definition TSL2561_B8C :: int where "TSL2561_B8C = 0x0000"
definition TSL2561_M8C :: int where "TSL2561_M8C = 0x0000"

section \<open>The illuminance computation: \<open>tsl2561_compute_lux\<close>\<close>

text \<open>\<open>_is_init\<close>: the pointer is not NULL and the struct's \<open>init\<close> flag is set.\<close>

definition is_init :: "tsl2561_info_t option \<Rightarrow> bool" where
  "is_init tsl2561_info =
     (case tsl2561_info of
        None \<Rightarrow> False
      | Some s \<Rightarrow> if init s then True else False)"

text \<open>
  The channel scale: the \<open>switch\<close> on the integration time, then the shift by 4 for the
  1x gain (\<open>scale <<= 4\<close> on a \<open>uint32_t\<close>).
\<close>

definition channel_scale :: "tsl2561_info_t \<Rightarrow> 32 word" where
  "channel_scale s =
     (let scale =
        (if integration_time s = TSL2561_INTEGRATION_TIME_13MS then CH_SCALE_TINT0
         else if integration_time s = TSL2561_INTEGRATION_TIME_101MS then CH_SCALE_TINT1
         else push_bit CH_SCALE 1)
      in if gain s = TSL2561_GAIN_1X then push_bit 4 scale else scale)"

text \<open>
  \<open>visible + infrared\<close> is an \<open>int\<close> sum of two promoted 16-bit values (at most
  131070, so it is exact); the product with the \<open>uint32_t\<close> scale is unsigned 32-bit
  and wraps.
\<close>

definition scaled_channel0 :: "32 word \<Rightarrow> tsl2561_visible_t \<Rightarrow> tsl2561_infrared_t \<Rightarrow> 32 word" where
  "scaled_channel0 scale visible infrared =
     drop_bit CH_SCALE ((ucast visible + ucast infrared) * scale)"

definition scaled_channel1 :: "32 word \<Rightarrow> tsl2561_infrared_t \<Rightarrow> 32 word" where
  "scaled_channel1 scale infrared = drop_bit CH_SCALE (ucast infrared * scale)"

text \<open>
  Unsigned 32-bit division traps on a zero divisor; the trap is a value of the model, so
  that a claim that the division is guarded is a claim that this value is never returned.
\<close>

datatype fault = DivideByZero

definition udiv32 :: "32 word \<Rightarrow> 32 word \<Rightarrow> fault + 32 word" where
  "udiv32 a b = (if b = 0 then Inl DivideByZero else Inr (a div b))"

definition channel_ratio1 :: "32 word \<Rightarrow> 32 word \<Rightarrow> fault + 32 word" where
  "channel_ratio1 channel0 channel1 =
     (if channel0 \<noteq> 0 then udiv32 (push_bit (RATIO_SCALE + 1) channel1) channel0
      else Inr 0)"

definition round_ratio :: "32 word \<Rightarrow> 32 word" where
  "round_ratio ratio1 = drop_bit 1 (ratio1 + 1)"

text \<open>
  The \<open>switch\<close> on \<open>device_type\<close> with its two chains of comparisons. The result is the
  pair \<open>(b, m)\<close>; both start at 0 and stay 0 when no branch of a chain is taken.
\<close>

definition select_coefficients :: "tsl2561_device_type_t \<Rightarrow> 32 word \<Rightarrow> int \<times> int" where
  "select_coefficients dt ratio =
     (if dt = 1 then
        (if ratio \<le> TSL2561_K1C then (TSL2561_B1C, TSL2561_M1C)
         else if ratio \<le> TSL2561_K2C then (TSL2561_B2C, TSL2561_M2C)
         else if ratio \<le> TSL2561_K3C then (TSL2561_B3C, TSL2561_M3C)
         else if ratio \<le> TSL2561_K4C then (TSL2561_B4C, TSL2561_M4C)
         else if ratio \<le> TSL2561_K5T then (TSL2561_B5C, TSL2561_M5C)
         else if ratio \<le> TSL2561_K6T then (TSL2561_B6C, TSL2561_M6C)
         else if ratio \<le> TSL2561_K7T then (TSL2561_B7C, TSL2561_M7C)
         else if ratio > TSL2561_K8C then (TSL2561_B8C, TSL2561_M8C)
         else (0, 0))
      else
        (if ratio \<le> TSL2561_K1T then (TSL2561_B1T, TSL2561_M1T)
         else if ratio \<le> TSL2561_K2T then (TSL2561_B2T, TSL2561_M2T)
         else if ratio \<le> TSL2561_K3T then (TSL2561_B3T, TSL2561_M3T)
         else if ratio \<le> TSL2561_K4T then (TSL2561_B4T, TSL2561_M4T)
         else if ratio \<le> TSL2561_K5T then (TSL2561_B5T, TSL2561_M5T)
         else if ratio \<le> TSL2561_K6T then (TSL2561_B6T, TSL2561_M6T)
         else if ratio \<le> TSL2561_K7T then (TSL2561_B7T, TSL2561_M7T)
         else if ratio > TSL2561_K8T then (TSL2561_B8T, TSL2561_M8T)
         else (0, 0)))"

text \<open>
  The tail of the function: \<open>temp\<close>, the clamp to 0, the rounding bias and the final
  shift. The \<open>int\<close> coefficients are converted to \<open>uint32_t\<close> by the products.
\<close>

definition lux_of_channels :: "32 word \<Rightarrow> 32 word \<Rightarrow> int \<Rightarrow> int \<Rightarrow> 32 word" where
  "lux_of_channels channel0 channel1 b m =
     (let temp = (channel0 * word_of_int b) - (channel1 * word_of_int m);
          temp = (if (channel1 * word_of_int m) > (channel0 * word_of_int b) then 0 else temp);
          temp = temp + push_bit (LUX_SCALE - 1) 1
      in drop_bit LUX_SCALE temp)"

definition tsl2561_compute_lux ::
  "tsl2561_info_t option \<Rightarrow> tsl2561_visible_t \<Rightarrow> tsl2561_infrared_t \<Rightarrow> fault + 32 word" where
  "tsl2561_compute_lux tsl2561_info visible infrared =
     (case tsl2561_info of
        None \<Rightarrow> Inr 0
      | Some s \<Rightarrow>
          if is_init tsl2561_info then
            (let scale = channel_scale s;
                 channel0 = scaled_channel0 scale visible infrared;
                 channel1 = scaled_channel1 scale infrared
             in case channel_ratio1 channel0 channel1 of
                  Inl f \<Rightarrow> Inl f
                | Inr ratio1 \<Rightarrow>
                    (let ratio = round_ratio ratio1;
                         (b, m) = select_coefficients (device_type s) ratio
                     in Inr (lux_of_channels channel0 channel1 b m)))
          else Inr 0)"

section \<open>The device session\<close>

subsection \<open>The bus transport and the scheduler\<close>

text \<open>
  Every call the driver makes to the outside is recorded as an event, in the order of
  the calls: the three SMBus transactions and the FreeRTOS delay.
\<close>

datatype io_event =
  Write_Byte smbus_info_ptr "8 word" "8 word"
| Read_Byte smbus_info_ptr "8 word"
| Read_Word smbus_info_ptr "8 word"
| Task_Delay "32 word"

text \<open>
  The device on the bus is any deterministic environment: its answer to a transaction
  (an error code and, for a read, the data) may depend on everything that was done
  before. The second component is ignored for a write.
\<close>

type_synonym bus = "io_event list \<Rightarrow> io_event \<Rightarrow> esp_err_t \<times> 16 word"

text \<open>
  The transport functions \<open>smbus_write_byte\<close>, \<open>smbus_read_byte\<close> and
  \<open>smbus_read_word\<close> belong to the esp32-smbus component, outside this repository.
  Each addresses the bound device with a command byte and returns success or a transport
  error; a read also returns a byte or a 16-bit word. Nothing is assumed about them: a
  call records its event and returns what the device parameter answers.
\<close>

definition smbus_write_byte ::
  "bus \<Rightarrow> io_event list \<Rightarrow> smbus_info_ptr \<Rightarrow> 8 word \<Rightarrow> 8 word \<Rightarrow> esp_err_t \<times> io_event list" where
  "smbus_write_byte dev tr h command data =
     (fst (dev tr (Write_Byte h command data)), tr @ [Write_Byte h command data])"

definition smbus_read_byte ::
  "bus \<Rightarrow> io_event list \<Rightarrow> smbus_info_ptr \<Rightarrow> 8 word \<Rightarrow> esp_err_t \<times> 8 word \<times> io_event list" where
  "smbus_read_byte dev tr h command =
     (fst (dev tr (Read_Byte h command)), ucast (snd (dev tr (Read_Byte h command))),
      tr @ [Read_Byte h command])"

definition smbus_read_word ::
  "bus \<Rightarrow> io_event list \<Rightarrow> smbus_info_ptr \<Rightarrow> 8 word \<Rightarrow> esp_err_t \<times> 16 word \<times> io_event list" where
  "smbus_read_word dev tr h command =
     (fst (dev tr (Read_Word h command)), snd (dev tr (Read_Word h command)),
      tr @ [Read_Word h command])"

text \<open>
  \<open>vTaskDelay\<close> of the FreeRTOS scheduler blocks for the given number of ticks. The
  call is recorded with its argument.
\<close>

definition vTaskDelay :: "io_event list \<Rightarrow> 32 word \<Rightarrow> io_event list" where
  "vTaskDelay tr ticks = tr @ [Task_Delay ticks]"

subsection \<open>Registers and commands\<close>

definition REG_CONTROL :: "8 word" where "REG_CONTROL = 0x00"
definition REG_TIMING :: "8 word" where "REG_TIMING = 0x01"
definition REG_ID :: "8 word" where "REG_ID = 0x0A"
definition REG_DATA0LOW :: "8 word" where "REG_DATA0LOW = 0x0C"
definition REG_DATA1LOW :: "8 word" where "REG_DATA1LOW = 0x0E"
definition SMB_WORD :: "8 word" where "SMB_WORD = 0x20"
definition SMB_COMMAND :: "8 word" where "SMB_COMMAND = 0x80"
definition TSL2561_CONTROL_POWER_UP :: "8 word" where "TSL2561_CONTROL_POWER_UP = 0x03"
definition TSL2561_CONTROL_POWER_DOWN :: "8 word" where "TSL2561_CONTROL_POWER_DOWN = 0x00"

definition DEFAULT_INTEGRATION_TIME :: tsl2561_integration_time_t where
  "DEFAULT_INTEGRATION_TIME = TSL2561_INTEGRATION_TIME_402MS"

definition DEFAULT_GAIN :: tsl2561_gain_t where
  "DEFAULT_GAIN = TSL2561_GAIN_1X"

subsection \<open>The static helpers\<close>

text \<open>\<open>_check_device_id\<close>: whether the value is one of the four named package types.\<close>

definition check_device_id :: "tsl2561_device_type_t \<Rightarrow> bool" where
  "check_device_id device =
     (if device = TSL2561_DEVICE_TYPE_TSL2560CS then True
      else if device = TSL2561_DEVICE_TYPE_TSL2561CS then True
      else if device = TSL2561_DEVICE_TYPE_TSL2560T_FN_CL then True
      else if device = TSL2561_DEVICE_TYPE_TSL2561T_FN_CL then True
      else False)"

text \<open>
  Each function below takes the events so far and the pointee of \<open>tsl2561_info\<close>, and
  returns the error code, the pointee afterwards and the events afterwards.
\<close>

definition power_up ::
  "bus \<Rightarrow> io_event list \<Rightarrow> tsl2561_info_t option
     \<Rightarrow> esp_err_t \<times> tsl2561_info_t option \<times> io_event list" where
  "power_up dev tr tsl2561_info =
     (case tsl2561_info of
        None \<Rightarrow> (ESP_FAIL, None, tr)
      | Some s \<Rightarrow>
          if \<not> powered s then
            (let (err, tr') = smbus_write_byte dev tr (smbus_info s)
                                (REG_CONTROL OR SMB_COMMAND) TSL2561_CONTROL_POWER_UP
             in if err = ESP_OK then (err, Some (s\<lparr>powered := True\<rparr>), tr')
                else (err, Some s, tr'))
          else (ESP_OK, Some s, tr))"

definition power_down ::
  "bus \<Rightarrow> io_event list \<Rightarrow> tsl2561_info_t option
     \<Rightarrow> esp_err_t \<times> tsl2561_info_t option \<times> io_event list" where
  "power_down dev tr tsl2561_info =
     (case tsl2561_info of
        None \<Rightarrow> (ESP_FAIL, None, tr)
      | Some s \<Rightarrow>
          if powered s then
            (let (err, tr') = smbus_write_byte dev tr (smbus_info s)
                                (REG_CONTROL OR SMB_COMMAND) TSL2561_CONTROL_POWER_DOWN
             in if err = ESP_OK then (err, Some (s\<lparr>powered := False\<rparr>), tr')
                else (err, Some s, tr'))
          else (ESP_OK, Some s, tr))"

text \<open>
  \<open>_set_integration_time_and_gain\<close>, which assumes the device is powered up. The data
  byte is \<open>integration_time | gain\<close> converted to \<open>uint8_t\<close>.
\<close>

definition set_integration_time_and_gain ::
  "bus \<Rightarrow> io_event list \<Rightarrow> tsl2561_info_t option
     \<Rightarrow> tsl2561_integration_time_t \<Rightarrow> tsl2561_gain_t
     \<Rightarrow> esp_err_t \<times> tsl2561_info_t option \<times> io_event list" where
  "set_integration_time_and_gain dev tr tsl2561_info it g =
     (case tsl2561_info of
        None \<Rightarrow> (ESP_FAIL, None, tr)
      | Some s \<Rightarrow>
          if powered s then
            (let (err, tr') = smbus_write_byte dev tr (smbus_info s)
                                (REG_TIMING OR SMB_COMMAND) (ucast (it OR g))
             in if err = ESP_OK
                then (err, Some (s\<lparr>integration_time := it, gain := g\<rparr>), tr')
                else (err, Some s, tr'))
          else (ESP_FAIL, Some s, tr))"

subsection \<open>The public functions\<close>

text \<open>
  \<open>tsl2561_device_id\<close>. The out-parameters \<open>device\<close> and \<open>revision\<close> are pointers:
  \<open>None\<close> is NULL, \<open>Some v\<close> a cell that holds \<open>v\<close>; the cells are returned as they are
  afterwards.
\<close>

definition tsl2561_device_id ::
  "bus \<Rightarrow> io_event list \<Rightarrow> tsl2561_info_t option
     \<Rightarrow> tsl2561_device_type_t option \<Rightarrow> tsl2561_revision_t option
     \<Rightarrow> esp_err_t \<times> tsl2561_device_type_t option \<times> tsl2561_revision_t option \<times> io_event list" where
  "tsl2561_device_id dev tr tsl2561_info device revision =
     (case tsl2561_info of
        None \<Rightarrow> (ESP_FAIL, device, revision, tr)
      | Some s \<Rightarrow>
          if is_init tsl2561_info \<and> device \<noteq> None \<and> revision \<noteq> None then
            (let (err, id, tr') = smbus_read_byte dev tr (smbus_info s) (REG_ID OR SMB_COMMAND)
             in if err = ESP_OK
                then (err, Some (ucast (drop_bit 4 id AND 0x0f)), Some (id AND 0x0f), tr')
                else (err, device, revision, tr'))
          else (ESP_FAIL, device, revision, tr))"

definition tsl2561_init ::
  "bus \<Rightarrow> io_event list \<Rightarrow> tsl2561_info_t option \<Rightarrow> smbus_info_ptr
     \<Rightarrow> esp_err_t \<times> tsl2561_info_t option \<times> io_event list" where
  "tsl2561_init dev tr tsl2561_info smbus =
     (case tsl2561_info of
        None \<Rightarrow> (ESP_FAIL, None, tr)
      | Some s0 \<Rightarrow>
          (let s = s0\<lparr>smbus_info := smbus, powered := False,
                      integration_time := DEFAULT_INTEGRATION_TIME, gain := DEFAULT_GAIN,
                      device_type := TSL2561_DEVICE_TYPE_INVALID, init := True\<rparr>;
               (err, device, revision, tr') =
                  tsl2561_device_id dev tr (Some s) (Some TSL2561_DEVICE_TYPE_INVALID) (Some 0)
           in if err = ESP_OK then
                (if check_device_id (the device)
                 then (ESP_OK, Some (s\<lparr>device_type := the device\<rparr>), tr')
                 else (err, Some s, tr'))
              else (err, Some s, tr')))"

text \<open>
  The delay of \<open>tsl2561_read\<close> in milliseconds: the \<open>switch\<close> on the integration time,
  whose \<open>default\<close> falls through to the 402 ms case.
\<close>

definition read_delay :: "tsl2561_integration_time_t \<Rightarrow> 32 word" where
  "read_delay it =
     (if it = TSL2561_INTEGRATION_TIME_13MS then 15
      else if it = TSL2561_INTEGRATION_TIME_101MS then 120
      else 450)"

text \<open>
  The argument of \<open>vTaskDelay\<close>, \<open>(delay - 1) / portTICK_RATE_MS + 1\<close>, in \<open>TickType_t\<close>
  (unsigned 32-bit) arithmetic. \<open>portTICK_RATE_MS\<close> is a constant of the FreeRTOS
  configuration, the number of milliseconds in a tick; it is a parameter here.
\<close>

definition delay_ticks :: "32 word \<Rightarrow> 32 word \<Rightarrow> fault + 32 word" where
  "delay_ticks portTICK_RATE_MS delay =
     (case udiv32 (delay - 1) portTICK_RATE_MS of
        Inl f \<Rightarrow> Inl f
      | Inr q \<Rightarrow> Inr (q + 1))"

definition tsl2561_read ::
  "bus \<Rightarrow> 32 word \<Rightarrow> io_event list \<Rightarrow> tsl2561_info_t option
     \<Rightarrow> tsl2561_visible_t option \<Rightarrow> tsl2561_infrared_t option
     \<Rightarrow> fault + (esp_err_t \<times> tsl2561_info_t option \<times> tsl2561_visible_t option
                   \<times> tsl2561_infrared_t option \<times> io_event list)" where
  "tsl2561_read dev portTICK_RATE_MS tr tsl2561_info visible infrared =
     (if is_init tsl2561_info \<and> visible \<noteq> None \<and> infrared \<noteq> None then
       (let (err, info1, tr1) = power_up dev tr tsl2561_info
        in if err = ESP_OK then
             (case delay_ticks portTICK_RATE_MS (read_delay (integration_time (the info1))) of
                Inl f \<Rightarrow> Inl f
              | Inr ticks \<Rightarrow>
                  (let tr2 = vTaskDelay tr1 ticks;
                       (err, ch0, tr3) =
                          smbus_read_word dev tr2 (smbus_info (the info1))
                            (REG_DATA0LOW OR SMB_COMMAND OR SMB_WORD)
                   in if err = ESP_OK then
                        (let (err, ch1, tr4) =
                                smbus_read_word dev tr3 (smbus_info (the info1))
                                  (REG_DATA1LOW OR SMB_COMMAND OR SMB_WORD)
                         in if err = ESP_OK then
                              (let (err, info2, tr5) = power_down dev tr4 info1
                               in if err = ESP_OK
                                  then Inr (err, info2, Some (ch0 - ch1), Some ch1, tr5)
                                  else Inr (err, info2, visible, infrared, tr5))
                            else Inr (err, info1, visible, infrared, tr4))
                      else Inr (err, info1, visible, infrared, tr3)))
           else Inr (err, info1, visible, infrared, tr1))
     else Inr (ESP_FAIL, tsl2561_info, visible, infrared, tr))"

definition tsl2561_set_integration_time_and_gain ::
  "bus \<Rightarrow> io_event list \<Rightarrow> tsl2561_info_t option
     \<Rightarrow> tsl2561_integration_time_t \<Rightarrow> tsl2561_gain_t
     \<Rightarrow> esp_err_t \<times> tsl2561_info_t option \<times> io_event list" where
  "tsl2561_set_integration_time_and_gain dev tr tsl2561_info it g =
     (if is_init tsl2561_info then
        (let (err, info1, tr1) = power_up dev tr tsl2561_info
         in if err = ESP_OK then
              (let (err, info2, tr2) = set_integration_time_and_gain dev tr1 info1 it g;
                   info3 = (if err = ESP_OK
                            then map_option (\<lambda>s. s\<lparr>integration_time := it, gain := g\<rparr>) info2
                            else info2);
                   (pderr, info4, tr3) = power_down dev tr2 info3
               in (if pderr \<noteq> ESP_OK then pderr else err, info4, tr3))
            else (err, info1, tr1))
      else (ESP_FAIL, tsl2561_info, tr))"

section \<open>Specification-level notions\<close>

subsection \<open>The coefficient lookup as the specification words it\<close>

text \<open>
  The lookup as the specification describes it: a table of eight
  \<open>(threshold, intercept, slope)\<close> triples per package family, searched for the first
  threshold that the rounded ratio is less than or equal to, with intercept 0 and slope 0
  when there is none. These definitions follow the specification, not the code; they are
  compared with \<open>select_coefficients\<close> below.
\<close>

definition spec_first_threshold :: "(32 word \<times> int \<times> int) list \<Rightarrow> 32 word \<Rightarrow> int \<times> int" where
  "spec_first_threshold table ratio =
     (case find (\<lambda>(k, b, m). ratio \<le> k) table of
        Some (k, b, m) \<Rightarrow> (b, m)
      | None \<Rightarrow> (0, 0))"

definition spec_chipscale_table :: "(32 word \<times> int \<times> int) list" where
  "spec_chipscale_table =
     [(TSL2561_K1C, TSL2561_B1C, TSL2561_M1C), (TSL2561_K2C, TSL2561_B2C, TSL2561_M2C),
      (TSL2561_K3C, TSL2561_B3C, TSL2561_M3C), (TSL2561_K4C, TSL2561_B4C, TSL2561_M4C),
      (TSL2561_K5T, TSL2561_B5C, TSL2561_M5C), (TSL2561_K6T, TSL2561_B6C, TSL2561_M6C),
      (TSL2561_K7T, TSL2561_B7C, TSL2561_M7C), (TSL2561_K8C, TSL2561_B8C, TSL2561_M8C)]"

definition spec_t_fn_cl_table :: "(32 word \<times> int \<times> int) list" where
  "spec_t_fn_cl_table =
     [(TSL2561_K1T, TSL2561_B1T, TSL2561_M1T), (TSL2561_K2T, TSL2561_B2T, TSL2561_M2T),
      (TSL2561_K3T, TSL2561_B3T, TSL2561_M3T), (TSL2561_K4T, TSL2561_B4T, TSL2561_M4T),
      (TSL2561_K5T, TSL2561_B5T, TSL2561_M5T), (TSL2561_K6T, TSL2561_B6T, TSL2561_M6T),
      (TSL2561_K7T, TSL2561_B7T, TSL2561_M7T), (TSL2561_K8T, TSL2561_B8T, TSL2561_M8T)]"

subsection \<open>Products that fit in 32 bits\<close>

text \<open>
  A product of the computation fits when the exact product of the two unsigned operands
  is below \<open>2 ^ 32\<close>, so that the 32-bit multiplication does not wrap. The first
  predicate is about the two products with the channel scale, the second about the
  products of the scaled channels with the selected intercept and slope.
\<close>

definition scaling_products_fit ::
  "tsl2561_info_t \<Rightarrow> tsl2561_visible_t \<Rightarrow> tsl2561_infrared_t \<Rightarrow> bool" where
  "scaling_products_fit s visible infrared =
     ((unat visible + unat infrared) * unat (channel_scale s) < 2 ^ 32
      \<and> unat infrared * unat (channel_scale s) < 2 ^ 32)"

definition coefficient_products_fit ::
  "tsl2561_info_t \<Rightarrow> tsl2561_visible_t \<Rightarrow> tsl2561_infrared_t \<Rightarrow> bool" where
  "coefficient_products_fit s visible infrared =
     (let scale = channel_scale s;
          channel0 = scaled_channel0 scale visible infrared;
          channel1 = scaled_channel1 scale infrared
      in case channel_ratio1 channel0 channel1 of
           Inl f \<Rightarrow> False
         | Inr ratio1 \<Rightarrow>
             (let (b, m) = select_coefficients (device_type s) (round_ratio ratio1)
              in unat channel0 * unat (word_of_int b :: 32 word) < 2 ^ 32
                 \<and> unat channel1 * unat (word_of_int m :: 32 word) < 2 ^ 32))"

subsection \<open>Example sessions\<close>

text \<open>
  An initialised session as \<open>tsl2561_init\<close> leaves it for a given package type, with a
  chosen integration time and gain. It is the session of the worked examples.
\<close>

definition session :: "tsl2561_device_type_t \<Rightarrow> tsl2561_integration_time_t \<Rightarrow> tsl2561_gain_t
    \<Rightarrow> tsl2561_info_t" where
  "session dt it g =
     \<lparr>init = True, powered = False, smbus_info = 0, device_type = dt,
      integration_time = it, gain = g\<rparr>"

text \<open>
  Four devices for the worked examples: one that answers every transaction with
  success and the data 0x1234; one whose identification register reads 0x2A, a package
  field of 0b0010; one that fails every transaction with the code 0x107; and one that
  accepts the power-up but fails the write of the timing register with the code 0x101
  and the power-down with the code 0x102.
\<close>

definition ok_bus :: bus where
  "ok_bus tr ev = (ESP_OK, 0x1234)"

definition unknown_package_bus :: bus where
  "unknown_package_bus tr ev = (ESP_OK, 0x2A)"

definition dead_bus :: bus where
  "dead_bus tr ev = (0x107, 0)"

definition failing_bus :: bus where
  "failing_bus tr ev =
     (case ev of
        Write_Byte h command data \<Rightarrow>
          if command = 0x81 then (0x101, 0)
          else if data = 0 then (0x102, 0)
          else (ESP_OK, 0)
      | _ \<Rightarrow> (ESP_OK, 0))"

section \<open>Unfolding rules\<close>

lemmas enum_defs =
  TSL2561_DEVICE_TYPE_INVALID_def TSL2561_DEVICE_TYPE_TSL2560CS_def
  TSL2561_DEVICE_TYPE_TSL2561CS_def TSL2561_DEVICE_TYPE_TSL2560T_FN_CL_def
  TSL2561_DEVICE_TYPE_TSL2561T_FN_CL_def TSL2561_INTEGRATION_TIME_13MS_def
  TSL2561_INTEGRATION_TIME_101MS_def TSL2561_INTEGRATION_TIME_402MS_def
  TSL2561_GAIN_1X_def TSL2561_GAIN_16X_def

lemmas scale_defs =
  CH_SCALE_def CH_SCALE_TINT0_def CH_SCALE_TINT1_def RATIO_SCALE_def LUX_SCALE_def

lemmas coeff_T_defs =
  TSL2561_K1T_def TSL2561_B1T_def TSL2561_M1T_def TSL2561_K2T_def TSL2561_B2T_def
  TSL2561_M2T_def TSL2561_K3T_def TSL2561_B3T_def TSL2561_M3T_def TSL2561_K4T_def
  TSL2561_B4T_def TSL2561_M4T_def TSL2561_K5T_def TSL2561_B5T_def TSL2561_M5T_def
  TSL2561_K6T_def TSL2561_B6T_def TSL2561_M6T_def TSL2561_K7T_def TSL2561_B7T_def
  TSL2561_M7T_def TSL2561_K8T_def TSL2561_B8T_def TSL2561_M8T_def

lemmas coeff_C_defs =
  TSL2561_K1C_def TSL2561_B1C_def TSL2561_M1C_def TSL2561_K2C_def TSL2561_B2C_def
  TSL2561_M2C_def TSL2561_K3C_def TSL2561_B3C_def TSL2561_M3C_def TSL2561_K4C_def
  TSL2561_B4C_def TSL2561_M4C_def TSL2561_K5C_def TSL2561_B5C_def TSL2561_M5C_def
  TSL2561_K6C_def TSL2561_B6C_def TSL2561_M6C_def TSL2561_K7C_def TSL2561_B7C_def
  TSL2561_M7C_def TSL2561_K8C_def TSL2561_B8C_def TSL2561_M8C_def

lemmas reg_defs =
  REG_CONTROL_def REG_TIMING_def REG_ID_def REG_DATA0LOW_def REG_DATA1LOW_def
  SMB_WORD_def SMB_COMMAND_def TSL2561_CONTROL_POWER_UP_def TSL2561_CONTROL_POWER_DOWN_def
  DEFAULT_INTEGRATION_TIME_def DEFAULT_GAIN_def

lemmas smbus_defs =
  smbus_write_byte_def smbus_read_byte_def smbus_read_word_def vTaskDelay_def

section \<open>Arithmetic of the scaled channels\<close>

lemma unat_ucast_16_32: "unat (ucast (v :: 16 word) :: 32 word) = unat v"
proof -
  have "unat v < 2 ^ 16" using unsigned_less [of v] by simp
  then have "unat v < 2 ^ 32" by simp
  then show ?thesis by (simp add: unsigned_ucast_eq take_bit_nat_eq_self_iff)
qed

lemma unat_lt_16: "unat (v :: 16 word) < 65536"
  using unsigned_less [of v, where 'a = nat] by simp

lemma unat_scaled_channel0:
  "unat (scaled_channel0 scale v i) = ((unat v + unat i) * unat scale mod 2 ^ 32) div 2 ^ 10"
proof -
  have "unat (ucast v + ucast i :: 32 word) = unat v + unat i"
    using unat_lt_16 [of v] unat_lt_16 [of i]
    by (simp add: unat_word_ariths unat_ucast_16_32)
  then show ?thesis
    by (simp add: scaled_channel0_def scale_defs unat_drop_bit_eq unat_word_ariths
        drop_bit_eq_div)
qed

lemma unat_scaled_channel1:
  "unat (scaled_channel1 scale i) = (unat i * unat scale mod 2 ^ 32) div 2 ^ 10"
  by (simp add: scaled_channel1_def scale_defs unat_drop_bit_eq unat_word_ariths
      drop_bit_eq_div unat_ucast_16_32)

lemma scaled_channel_less:
  "unat (scaled_channel0 scale v i) < 2 ^ 22" "unat (scaled_channel1 scale i) < 2 ^ 22"
proof -
  have shifted: "(n mod 2 ^ 32) div 2 ^ 10 < 2 ^ 22" for n :: nat
  proof -
    have "n mod 2 ^ 32 < 2 ^ 32" by simp
    then show ?thesis by (simp add: less_mult_imp_div_less)
  qed
  show "unat (scaled_channel0 scale v i) < 2 ^ 22"
    unfolding unat_scaled_channel0 by (rule shifted)
  show "unat (scaled_channel1 scale i) < 2 ^ 22"
    unfolding unat_scaled_channel1 by (rule shifted)
qed

lemma select_coefficients_bounds:
  "select_coefficients dt ratio = (b, m) \<Longrightarrow> 0 \<le> b \<and> b \<le> 1022 \<and> 0 \<le> m \<and> m \<le> 1022"
  by (auto simp add: select_coefficients_def coeff_T_defs coeff_C_defs split: if_splits)

lemma unat_coefficient:
  "0 \<le> b \<Longrightarrow> b \<le> 1022 \<Longrightarrow> unat (word_of_int b :: 32 word) = nat b"
  by (simp add: unat_eq_nat_uint uint_word_of_int take_bit_int_eq_self_iff)

lemma coefficient_product_less:
  fixes c :: nat
  assumes c: "c < 2 ^ 22" and b: "0 \<le> b" "b \<le> 1022"
  shows "c * unat (word_of_int b :: 32 word) < 2 ^ 32"
proof -
  have "unat (word_of_int b :: 32 word) = nat b" using b by (rule unat_coefficient)
  moreover have "nat b \<le> 1022" using b by simp
  ultimately have "c * unat (word_of_int b :: 32 word) \<le> c * 1022" by simp
  also have "\<dots> < 2 ^ 22 * 1022" using c by simp
  finally show ?thesis by simp
qed

lemmas lux_defs =
  tsl2561_compute_lux_def is_init_def channel_ratio1_def udiv32_def scaled_channel0_def
  scaled_channel1_def round_ratio_def select_coefficients_def lux_of_channels_def
  channel_scale_def

section \<open>The computation of an initialised session\<close>

lemma channel_ratio1_eq:
  "channel_ratio1 channel0 channel1
     = Inr (if channel0 = 0 then 0 else push_bit 10 channel1 div channel0)"
  by (simp add: channel_ratio1_def udiv32_def scale_defs)

lemma unat_ratio1:
  "unat (if channel0 = 0 then 0 else push_bit 10 channel1 div channel0 :: 32 word)
     = (if unat channel0 = 0 then 0 else (unat channel1 * 2 ^ 10 mod 2 ^ 32) div unat channel0)"
  by (simp add: unat_div unat_word_ariths push_bit_eq_mult unat_eq_zero)

lemma unat_round_ratio: "unat (round_ratio ratio1) = ((unat ratio1 + 1) mod 2 ^ 32) div 2"
  by (simp add: round_ratio_def unat_drop_bit_eq unat_word_ariths drop_bit_eq_div)

lemma lux_zero_coefficients: "lux_of_channels channel0 channel1 0 0 = 0"
  by (simp add: lux_of_channels_def scale_defs Let_def)

lemma select_spec:
  "select_coefficients dt ratio =
     spec_first_threshold (if dt = 1 then spec_chipscale_table else spec_t_fn_cl_table) ratio"
  by (simp add: select_coefficients_def spec_first_threshold_def spec_chipscale_table_def
      spec_t_fn_cl_table_def coeff_T_defs coeff_C_defs)

lemma select_past_seventh: "TSL2561_K7T < ratio \<Longrightarrow> select_coefficients dt ratio = (0, 0)"
  by (simp add: select_coefficients_def coeff_T_defs coeff_C_defs word_le_nat_alt
        word_less_nat_alt)

lemma unat_exact_product:
  fixes x y :: "32 word"
  assumes "unat x * unat y < 2 ^ 32"
  shows "unat (x * y) = unat x * unat y"
  using assms by (simp add: unat_word_ariths)

section \<open>Claims about \<open>tsl2561_compute_lux\<close>\<close>

text \<open>
  C10. For a session pointer that is NULL, or that points to a struct whose \<open>init\<close> flag
  is false, \<open>tsl2561_compute_lux\<close> returns exactly 0 for all visible and infrared
  inputs: the \<open>uint32_t\<close> result has no error channel, and no fault is raised either.
\<close>

theorem compute_lux_not_initialised:
  "(case tsl2561_info of None \<Rightarrow> True | Some s \<Rightarrow> \<not> init s) \<Longrightarrow>
     tsl2561_compute_lux tsl2561_info visible infrared = Inr 0"
  by (simp add: tsl2561_compute_lux_def is_init_def split: option.splits)

theorem compute_lux_not_initialised_witness:
  "tsl2561_compute_lux None 1000 100 = Inr 0
   \<and> \<not> init ((session 5 2 0)\<lparr>init := False\<rparr>)
   \<and> tsl2561_compute_lux (Some ((session 5 2 0)\<lparr>init := False\<rparr>)) 1000 100 = Inr 0"
  using compute_lux_not_initialised [of None 1000 100]
    compute_lux_not_initialised [of "Some ((session 5 2 0)\<lparr>init := False\<rparr>)" 1000 100]
  by (simp add: session_def)

text \<open>
  C6. The ratio of the scaled channels is 0 whenever the scaled channel 0 is 0, and
  otherwise the quotient of channel 1 shifted left by 10 and channel 0; it is rounded
  by adding 1 and shifting right by 1, which leaves 9 fractional bits. The division is
  never executed on a zero divisor: the computation returns no fault for any session
  and input. For an initialised session, visible = 0 and infrared = 0 give exactly 0.
  For an initialised session and any input, \<open>tsl2561_compute_lux\<close> takes this guarded
  quotient of its own two scaled channels, rounds it so, and returns the illuminance of
  the coefficient pair selected for the rounded ratio.
\<close>

theorem ratio_guard_and_zero_input:
  "channel_ratio1 0 channel1 = Inr 0
   \<and> (channel0 \<noteq> 0 \<longrightarrow>
        (\<exists>r. channel_ratio1 channel0 channel1 = Inr r
           \<and> unat r = (unat channel1 * 2 ^ 10 mod 2 ^ 32) div unat channel0))
   \<and> unat (round_ratio ratio1) = ((unat ratio1 + 1) mod 2 ^ 32) div 2
   \<and> tsl2561_compute_lux tsl2561_info visible infrared \<noteq> Inl DivideByZero
   \<and> (init s \<longrightarrow> tsl2561_compute_lux (Some s) 0 0 = Inr 0)
   \<and> (init s \<longrightarrow>
        (\<exists>r ratio.
           channel_ratio1 (scaled_channel0 (channel_scale s) visible infrared)
               (scaled_channel1 (channel_scale s) infrared) = Inr r
           \<and> unat r =
               (if unat (scaled_channel0 (channel_scale s) visible infrared) = 0 then 0
                else (unat (scaled_channel1 (channel_scale s) infrared) * 2 ^ 10 mod 2 ^ 32)
                       div unat (scaled_channel0 (channel_scale s) visible infrared))
           \<and> ratio = round_ratio r
           \<and> unat ratio = ((unat r + 1) mod 2 ^ 32) div 2
           \<and> tsl2561_compute_lux (Some s) visible infrared =
               Inr (lux_of_channels
                      (scaled_channel0 (channel_scale s) visible infrared)
                      (scaled_channel1 (channel_scale s) infrared)
                      (fst (select_coefficients (device_type s) ratio))
                      (snd (select_coefficients (device_type s) ratio)))))"
proof (intro conjI impI)
  show "channel_ratio1 0 channel1 = Inr 0"
    by (simp add: channel_ratio1_def)
  show "\<exists>r. channel_ratio1 channel0 channel1 = Inr r
           \<and> unat r = (unat channel1 * 2 ^ 10 mod 2 ^ 32) div unat channel0"
    if "channel0 \<noteq> 0"
    using that
    by (simp add: channel_ratio1_def udiv32_def scale_defs unat_div unat_word_ariths
        push_bit_eq_mult)
  show "unat (round_ratio ratio1) = ((unat ratio1 + 1) mod 2 ^ 32) div 2"
    by (rule unat_round_ratio)
  show "tsl2561_compute_lux tsl2561_info visible infrared \<noteq> Inl DivideByZero"
    by (simp add: tsl2561_compute_lux_def channel_ratio1_def udiv32_def Let_def
        split: option.splits prod.splits)
  show "tsl2561_compute_lux (Some s) 0 0 = Inr 0" if "init s"
    using that
    by (simp add: lux_defs Let_def coeff_T_defs coeff_C_defs scale_defs split: prod.splits)
next
  assume i: "init s"
  let ?c0 = "scaled_channel0 (channel_scale s) visible infrared"
  let ?c1 = "scaled_channel1 (channel_scale s) infrared"
  let ?r = "if ?c0 = 0 then 0 else push_bit 10 ?c1 div ?c0"
  have "channel_ratio1 ?c0 ?c1 = Inr ?r" by (rule channel_ratio1_eq)
  moreover have "unat ?r = (if unat ?c0 = 0 then 0
                else (unat ?c1 * 2 ^ 10 mod 2 ^ 32) div unat ?c0)"
    by (rule unat_ratio1)
  moreover have "unat (round_ratio ?r) = ((unat ?r + 1) mod 2 ^ 32) div 2"
    by (rule unat_round_ratio)
  moreover have "tsl2561_compute_lux (Some s) visible infrared =
       Inr (lux_of_channels ?c0 ?c1
              (fst (select_coefficients (device_type s) (round_ratio ?r)))
              (snd (select_coefficients (device_type s) (round_ratio ?r))))"
    using i
    by (simp add: tsl2561_compute_lux_def is_init_def Let_def channel_ratio1_eq
        split: prod.splits)
  ultimately show "\<exists>r ratio.
           channel_ratio1 ?c0 ?c1 = Inr r
           \<and> unat r = (if unat ?c0 = 0 then 0
                else (unat ?c1 * 2 ^ 10 mod 2 ^ 32) div unat ?c0)
           \<and> ratio = round_ratio r
           \<and> unat ratio = ((unat r + 1) mod 2 ^ 32) div 2
           \<and> tsl2561_compute_lux (Some s) visible infrared =
               Inr (lux_of_channels ?c0 ?c1
                      (fst (select_coefficients (device_type s) ratio))
                      (snd (select_coefficients (device_type s) ratio)))"
    by blast
qed



theorem ratio_guard_and_zero_input_witness:
  "(7 :: 32 word) \<noteq> 0 \<and> channel_ratio1 7 3 = Inr 438
   \<and> init (session 1 0 0) \<and> tsl2561_compute_lux (Some (session 1 0 0)) 0 0 = Inr 0
   \<and> init (session 5 2 16)
   \<and> channel_ratio1 (scaled_channel0 (channel_scale (session 5 2 16)) 900 100)
        (scaled_channel1 (channel_scale (session 5 2 16)) 100) = Inr 102
   \<and> round_ratio 102 = 51
   \<and> tsl2561_compute_lux (Some (session 5 2 16)) 900 100 = Inr 28"
proof -
  have ratio: "channel_ratio1 7 3 = Inr 438"
    by (simp add: channel_ratio1_def udiv32_def scale_defs)
  have inits: "init (session 1 0 0)" "init (session 5 2 16)"
    by (simp_all add: session_def)
  have channels: "channel_ratio1 (scaled_channel0 (channel_scale (session 5 2 16)) 900 100)
        (scaled_channel1 (channel_scale (session 5 2 16)) 100) = Inr 102"
    by (simp add: session_def channel_ratio1_def udiv32_def scaled_channel0_def
        scaled_channel1_def channel_scale_def scale_defs enum_defs)
  have rounded: "round_ratio 102 = 51"
    by (simp add: round_ratio_def)
  have lux: "tsl2561_compute_lux (Some (session 5 2 16)) 900 100 = Inr 28"
    by (simp add: session_def lux_defs scale_defs coeff_T_defs coeff_C_defs Let_def enum_defs)
  from ratio_guard_and_zero_input [of 3 7 0 "Some (session 5 2 16)" 900 100 "session 1 0 0"] inits(1)
  have zero: "tsl2561_compute_lux (Some (session 1 0 0)) 0 0 = Inr 0"
    by blast
  from ratio inits channels rounded lux zero show ?thesis by simp
qed

text \<open>
  C9. The channel-scaling constant is selected from the integration time: 0x7517 for
  the 13 ms setting, 0x0FE7 for the 101 ms setting and \<open>1 << 10\<close> for the 402 ms
  setting and every unrecognised value; it is shifted left by 4 exactly when the gain is
  the 1x setting. The scaled channels are
  \<open>channel0 = ((visible + infrared) * scale) >> 10\<close> and
  \<open>channel1 = (infrared * scale) >> 10\<close>, the products being taken in 32 bits, and
  these are the channels the rest of the computation of an initialised session uses.
\<close>

theorem channel_scaling:
  "channel_scale s =
     (if gain s = TSL2561_GAIN_1X
      then push_bit 4
             (if integration_time s = TSL2561_INTEGRATION_TIME_13MS then 0x7517
              else if integration_time s = TSL2561_INTEGRATION_TIME_101MS then 0x0FE7
              else push_bit 10 1)
      else (if integration_time s = TSL2561_INTEGRATION_TIME_13MS then 0x7517
            else if integration_time s = TSL2561_INTEGRATION_TIME_101MS then 0x0FE7
            else push_bit 10 1))
   \<and> unat (scaled_channel0 (channel_scale s) visible infrared)
       = ((unat visible + unat infrared) * unat (channel_scale s) mod 2 ^ 32) div 2 ^ 10
   \<and> unat (scaled_channel1 (channel_scale s) infrared)
       = (unat infrared * unat (channel_scale s) mod 2 ^ 32) div 2 ^ 10
   \<and> (init s \<longrightarrow>
        tsl2561_compute_lux (Some s) visible infrared =
          (let channel0 = scaled_channel0 (channel_scale s) visible infrared;
               channel1 = scaled_channel1 (channel_scale s) infrared
           in case channel_ratio1 channel0 channel1 of
                Inl f \<Rightarrow> Inl f
              | Inr ratio1 \<Rightarrow>
                  Inr (lux_of_channels channel0 channel1
                        (fst (select_coefficients (device_type s) (round_ratio ratio1)))
                        (snd (select_coefficients (device_type s) (round_ratio ratio1))))))"
proof (intro conjI impI)
  show "channel_scale s =
     (if gain s = TSL2561_GAIN_1X
      then push_bit 4
             (if integration_time s = TSL2561_INTEGRATION_TIME_13MS then 0x7517
              else if integration_time s = TSL2561_INTEGRATION_TIME_101MS then 0x0FE7
              else push_bit 10 1)
      else (if integration_time s = TSL2561_INTEGRATION_TIME_13MS then 0x7517
            else if integration_time s = TSL2561_INTEGRATION_TIME_101MS then 0x0FE7
            else push_bit 10 1))"
    by (simp add: channel_scale_def scale_defs)
  show "unat (scaled_channel0 (channel_scale s) visible infrared)
       = ((unat visible + unat infrared) * unat (channel_scale s) mod 2 ^ 32) div 2 ^ 10"
    by (rule unat_scaled_channel0)
  show "unat (scaled_channel1 (channel_scale s) infrared)
       = (unat infrared * unat (channel_scale s) mod 2 ^ 32) div 2 ^ 10"
    by (rule unat_scaled_channel1)
  show "tsl2561_compute_lux (Some s) visible infrared =
          (let channel0 = scaled_channel0 (channel_scale s) visible infrared;
               channel1 = scaled_channel1 (channel_scale s) infrared
           in case channel_ratio1 channel0 channel1 of
                Inl f \<Rightarrow> Inl f
              | Inr ratio1 \<Rightarrow>
                  Inr (lux_of_channels channel0 channel1
                        (fst (select_coefficients (device_type s) (round_ratio ratio1)))
                        (snd (select_coefficients (device_type s) (round_ratio ratio1)))))"
    if "init s"
    using that
    by (simp add: tsl2561_compute_lux_def is_init_def Let_def split: sum.splits prod.splits)
qed

theorem channel_scaling_witness:
  "channel_scale (session 5 0 0) = 0x75170
   \<and> channel_scale (session 5 1 0) = 0xFE70
   \<and> channel_scale (session 5 2 0) = 0x4000
   \<and> channel_scale (session 5 3 0x10) = 0x400
   \<and> unat (scaled_channel0 (channel_scale (session 5 0 0)) 0xFFFF 0xFFFF) = 2667607
   \<and> init (session 5 0 0)
   \<and> tsl2561_compute_lux (Some (session 5 0 0)) 0xFFFF 0xFFFF = Inr 18398"
  using channel_scaling [of "session 5 0 0" 65535 65535]
    channel_scaling [of "session 5 1 0" 0 0] channel_scaling [of "session 5 2 0" 0 0]
    channel_scaling [of "session 5 3 16" 0 0]
  by (simp add: session_def enum_defs lux_defs scale_defs coeff_T_defs Let_def)

text \<open>
  C2. For every rounded ratio the coefficient pair is that of the first of eight
  ascending thresholds that the ratio is less than or equal to. In the branch for
  \<open>device_type = 1\<close> the fifth, sixth and seventh thresholds are the constants
  \<open>K5T = 0x0138\<close>, \<open>K6T = 0x019A\<close> and \<open>K7T = 0x029A\<close> of the other family, so
  that a ratio of 0x140, above \<open>K5T\<close> and below \<open>K5C\<close>, takes the sixth pair. A
  ratio past the seventh threshold gives intercept 0 and slope 0, and that pair gives
  illuminance 0 for all channel values. \<open>tsl2561_compute_lux\<close> of an initialised
  session applies this lookup to the rounded ratio of its scaled channels, in the table
  chosen by the session's \<open>device_type\<close>, and returns 0 when that ratio is past the
  seventh threshold.
\<close>

theorem coefficient_lookup_first_threshold:
  "select_coefficients 1 ratio = spec_first_threshold spec_chipscale_table ratio
   \<and> (dt \<noteq> 1 \<longrightarrow> select_coefficients dt ratio = spec_first_threshold spec_t_fn_cl_table ratio)
   \<and> length spec_chipscale_table = 8 \<and> length spec_t_fn_cl_table = 8
   \<and> sorted (map fst spec_chipscale_table) \<and> sorted (map fst spec_t_fn_cl_table)
   \<and> map fst (take 3 (drop 4 spec_chipscale_table)) = [TSL2561_K5T, TSL2561_K6T, TSL2561_K7T]
   \<and> [TSL2561_K5T, TSL2561_K6T, TSL2561_K7T] = [0x0138, 0x019A, 0x029A]
   \<and> TSL2561_K5T < 0x140 \<and> 0x140 \<le> TSL2561_K5C
   \<and> select_coefficients 1 0x140 = (TSL2561_B6C, TSL2561_M6C)
   \<and> (TSL2561_K7T < ratio \<longrightarrow> select_coefficients dt ratio = (0, 0))
   \<and> lux_of_channels channel0 channel1 0 0 = 0
   \<and> (init s \<longrightarrow>
        (\<exists>r rounded.
           channel_ratio1 (scaled_channel0 (channel_scale s) visible infrared)
               (scaled_channel1 (channel_scale s) infrared) = Inr r
           \<and> rounded = round_ratio r
           \<and> tsl2561_compute_lux (Some s) visible infrared =
               Inr (lux_of_channels
                      (scaled_channel0 (channel_scale s) visible infrared)
                      (scaled_channel1 (channel_scale s) infrared)
                      (fst (spec_first_threshold
                              (if device_type s = 1 then spec_chipscale_table
                               else spec_t_fn_cl_table) rounded))
                      (snd (spec_first_threshold
                              (if device_type s = 1 then spec_chipscale_table
                               else spec_t_fn_cl_table) rounded)))
           \<and> (TSL2561_K7T < rounded \<longrightarrow>
                 tsl2561_compute_lux (Some s) visible infrared = Inr 0)))"
proof (intro conjI impI)
  show "select_coefficients 1 ratio = spec_first_threshold spec_chipscale_table ratio"
    by (simp add: select_coefficients_def spec_first_threshold_def spec_chipscale_table_def
        coeff_T_defs coeff_C_defs)
  show "select_coefficients dt ratio = spec_first_threshold spec_t_fn_cl_table ratio"
    if "dt \<noteq> 1"
    using that
    by (simp add: select_coefficients_def spec_first_threshold_def spec_t_fn_cl_table_def
        coeff_T_defs coeff_C_defs)
  show "select_coefficients dt ratio = (0, 0)" if "TSL2561_K7T < ratio"
    using that
    by (simp add: select_coefficients_def coeff_T_defs coeff_C_defs word_le_nat_alt
        word_less_nat_alt)
  show "lux_of_channels channel0 channel1 0 0 = 0"
    by (simp add: lux_of_channels_def scale_defs Let_def)
  show "\<exists>r rounded.
           channel_ratio1 (scaled_channel0 (channel_scale s) visible infrared)
               (scaled_channel1 (channel_scale s) infrared) = Inr r
           \<and> rounded = round_ratio r
           \<and> tsl2561_compute_lux (Some s) visible infrared =
               Inr (lux_of_channels
                      (scaled_channel0 (channel_scale s) visible infrared)
                      (scaled_channel1 (channel_scale s) infrared)
                      (fst (spec_first_threshold
                              (if device_type s = 1 then spec_chipscale_table
                               else spec_t_fn_cl_table) rounded))
                      (snd (spec_first_threshold
                              (if device_type s = 1 then spec_chipscale_table
                               else spec_t_fn_cl_table) rounded)))
           \<and> (TSL2561_K7T < rounded \<longrightarrow>
                 tsl2561_compute_lux (Some s) visible infrared = Inr 0)"
    if i: "init s"
  proof -
    let ?c0 = "scaled_channel0 (channel_scale s) visible infrared"
    let ?c1 = "scaled_channel1 (channel_scale s) infrared"
    let ?r = "if ?c0 = 0 then 0 else push_bit 10 ?c1 div ?c0"
    let ?tab = "if device_type s = 1 then spec_chipscale_table else spec_t_fn_cl_table"
    have r: "channel_ratio1 ?c0 ?c1 = Inr ?r" by (rule channel_ratio1_eq)
    have lux: "tsl2561_compute_lux (Some s) visible infrared =
         Inr (lux_of_channels ?c0 ?c1
                (fst (select_coefficients (device_type s) (round_ratio ?r)))
                (snd (select_coefficients (device_type s) (round_ratio ?r))))"
      using i
      by (simp add: tsl2561_compute_lux_def is_init_def Let_def channel_ratio1_eq
          split: prod.splits)
    have spec: "tsl2561_compute_lux (Some s) visible infrared =
         Inr (lux_of_channels ?c0 ?c1
                (fst (spec_first_threshold ?tab (round_ratio ?r)))
                (snd (spec_first_threshold ?tab (round_ratio ?r))))"
      unfolding lux by (simp only: select_spec [of "device_type s"])
    have zero: "tsl2561_compute_lux (Some s) visible infrared = Inr 0"
      if "TSL2561_K7T < round_ratio ?r"
      unfolding lux by (simp only: select_past_seventh [OF that] fst_conv snd_conv
          lux_zero_coefficients)
    from r spec zero show ?thesis by blast
  qed
qed (simp_all add: spec_chipscale_table_def spec_t_fn_cl_table_def select_coefficients_def
      coeff_T_defs coeff_C_defs)



theorem coefficient_lookup_first_threshold_witness:
  "(4 :: 32 word) \<noteq> 1 \<and> TSL2561_K7T < 0x29B
   \<and> select_coefficients 4 0x29B = spec_first_threshold spec_t_fn_cl_table 0x29B
   \<and> select_coefficients 4 0x29B = (0, 0)
   \<and> init (session 5 0 0)
   \<and> channel_ratio1 (scaled_channel0 (channel_scale (session 5 0 0)) 8955 1)
        (scaled_channel1 (channel_scale (session 5 0 0)) 1) = Inr 1488
   \<and> TSL2561_K7T < round_ratio 1488
   \<and> tsl2561_compute_lux (Some (session 5 0 0)) 8955 1 = Inr 0"
proof -
  have other: "(4 :: 32 word) \<noteq> 1" by simp
  have past: "TSL2561_K7T < 0x29B" by (simp add: coeff_T_defs)
  have initialised: "init (session 5 0 0)" by (simp add: session_def)
  have channels: "channel_ratio1 (scaled_channel0 (channel_scale (session 5 0 0)) 8955 1)
        (scaled_channel1 (channel_scale (session 5 0 0)) 1) = Inr 1488"
    by (simp add: session_def channel_ratio1_def udiv32_def scaled_channel0_def
        scaled_channel1_def channel_scale_def scale_defs enum_defs)
  have rounded: "TSL2561_K7T < round_ratio 1488"
    by (simp add: round_ratio_def coeff_T_defs)
  note t = coefficient_lookup_first_threshold [of 667 4 0 0 "session 5 0 0" 8955 1]
  note rest = t [THEN conjunct2]
  have table: "select_coefficients 4 0x29B = spec_first_threshold spec_t_fn_cl_table 0x29B"
    using rest [THEN conjunct1] other by (rule mp)
  note rest = rest [THEN conjunct2, THEN conjunct2, THEN conjunct2, THEN conjunct2,
      THEN conjunct2, THEN conjunct2, THEN conjunct2, THEN conjunct2, THEN conjunct2,
      THEN conjunct2]
  have zero_pair: "select_coefficients 4 0x29B = (0, 0)"
    using rest [THEN conjunct1] past by (rule mp)
  note rest = rest [THEN conjunct2, THEN conjunct2]
  from rest initialised
  obtain r where r: "channel_ratio1 (scaled_channel0 (channel_scale (session 5 0 0)) 8955 1)
        (scaled_channel1 (channel_scale (session 5 0 0)) 1) = Inr r"
      "TSL2561_K7T < round_ratio r \<longrightarrow>
         tsl2561_compute_lux (Some (session 5 0 0)) 8955 1 = Inr 0"
    by blast
  from r(1) channels have "r = 1488" by simp
  with r(2) rounded have zero: "tsl2561_compute_lux (Some (session 5 0 0)) 8955 1 = Inr 0"
    by blast
  from other past table zero_pair initialised channels rounded zero show ?thesis
    by (intro conjI)
qed

text \<open>
  C3, at the input where the code departs from it. A session whose package type is
  TSL2560CS (encoding 0b0000, a chipscale part by the header) is computed with the
  T/FN/CL coefficients: the \<open>switch\<close> takes the chipscale chain for the value 1 only
  and sends 0 to the other chain, for every ratio. With 402 ms, 16x gain, visible 900 and infrared 100
  the rounded ratio is 51; the code returns 28, where the chipscale coefficients, as
  used for TSL2561CS, give 29.
\<close>

theorem compute_lux_tsl2560cs_takes_t_fn_cl_coefficients:
  "select_coefficients TSL2561_DEVICE_TYPE_TSL2560CS ratio
     = spec_first_threshold spec_t_fn_cl_table ratio
   \<and> select_coefficients TSL2561_DEVICE_TYPE_TSL2560CS 51 = (TSL2561_B1T, TSL2561_M1T)
   \<and> select_coefficients TSL2561_DEVICE_TYPE_TSL2561CS 51 = (TSL2561_B1C, TSL2561_M1C)
   \<and> (TSL2561_B1T, TSL2561_M1T) \<noteq> (TSL2561_B1C, TSL2561_M1C)
   \<and> tsl2561_compute_lux
        (Some (session TSL2561_DEVICE_TYPE_TSL2560CS TSL2561_INTEGRATION_TIME_402MS
                 TSL2561_GAIN_16X)) 900 100 = Inr 28
   \<and> tsl2561_compute_lux
        (Some (session TSL2561_DEVICE_TYPE_TSL2561CS TSL2561_INTEGRATION_TIME_402MS
                 TSL2561_GAIN_16X)) 900 100 = Inr 29
   \<and> tsl2561_compute_lux
        (Some (session TSL2561_DEVICE_TYPE_TSL2560T_FN_CL TSL2561_INTEGRATION_TIME_402MS
                 TSL2561_GAIN_16X)) 900 100 = Inr 28"
  by (simp add: session_def enum_defs lux_defs scale_defs coeff_T_defs coeff_C_defs Let_def
      spec_first_threshold_def spec_t_fn_cl_table_def)

text \<open>
  C5 as stated fails: with the 13 ms integration time and 1x gain the scale is 0x75170,
  and for visible = 9000 and infrared = 1000, whose sum is a 16-bit channel count, the
  product \<open>(visible + infrared) * scale\<close> is above \<open>2 ^ 32\<close>, so the 32-bit
  multiplication wraps.
\<close>

theorem scaling_product_overflow_counterexample:
  "init (session TSL2561_DEVICE_TYPE_TSL2561T_FN_CL TSL2561_INTEGRATION_TIME_13MS TSL2561_GAIN_1X)
   \<and> unat (9000 :: 16 word) + unat (1000 :: 16 word) \<le> 65535
   \<and> \<not> scaling_products_fit
         (session TSL2561_DEVICE_TYPE_TSL2561T_FN_CL TSL2561_INTEGRATION_TIME_13MS
            TSL2561_GAIN_1X) 9000 1000"
  by (simp add: session_def scaling_products_fit_def channel_scale_def scale_defs enum_defs)

text \<open>
  C5 as amended. It is about the inputs whose sum \<open>visible + infrared\<close> is at most
  65535, the range of the raw channel 0 count that the sum stands for; larger sums are
  left out. For every session and all such inputs the products
  \<open>channel0 * intercept\<close> and \<open>channel1 * slope\<close> fit in 32 bits. The two products
  with the channel scale fit whenever the gain is not 1x or the integration time is not
  13 ms; with 1x gain and 13 ms they fit exactly when \<open>visible + infrared\<close> is at most
  8955. Where the scaling products fit, the scaled channels are the exact products
  shifted right by 10. For an initialised session these are the products
  \<open>tsl2561_compute_lux\<close> forms: it returns the illuminance of its scaled channels and a
  coefficient pair whose 32-bit products with them equal the exact products.
\<close>

theorem products_fit_in_32_bits:
  assumes range: "unat visible + unat infrared \<le> 65535"
  shows "coefficient_products_fit s visible infrared
   \<and> (gain s \<noteq> TSL2561_GAIN_1X \<or> integration_time s \<noteq> TSL2561_INTEGRATION_TIME_13MS
      \<longrightarrow> scaling_products_fit s visible infrared)
   \<and> (gain s = TSL2561_GAIN_1X \<and> integration_time s = TSL2561_INTEGRATION_TIME_13MS
      \<longrightarrow> (scaling_products_fit s visible infrared \<longleftrightarrow> unat visible + unat infrared \<le> 8955))
   \<and> (scaling_products_fit s visible infrared \<longrightarrow>
        unat (scaled_channel0 (channel_scale s) visible infrared)
          = (unat visible + unat infrared) * unat (channel_scale s) div 2 ^ 10
        \<and> unat (scaled_channel1 (channel_scale s) infrared)
          = unat infrared * unat (channel_scale s) div 2 ^ 10)
   \<and> (init s \<longrightarrow>
        (\<exists>b m. tsl2561_compute_lux (Some s) visible infrared
                 = Inr (lux_of_channels (scaled_channel0 (channel_scale s) visible infrared)
                          (scaled_channel1 (channel_scale s) infrared) b m)
           \<and> 0 \<le> b \<and> 0 \<le> m
           \<and> unat (scaled_channel0 (channel_scale s) visible infrared * word_of_int b)
               = unat (scaled_channel0 (channel_scale s) visible infrared) * nat b
           \<and> unat (scaled_channel1 (channel_scale s) infrared * word_of_int m)
               = unat (scaled_channel1 (channel_scale s) infrared) * nat m))"
proof (intro conjI impI)
  let ?c0 = "scaled_channel0 (channel_scale s) visible infrared"
  let ?c1 = "scaled_channel1 (channel_scale s) infrared"
  let ?r = "if ?c0 = 0 then 0 else push_bit 10 ?c1 div ?c0"
  have r1: "channel_ratio1 ?c0 ?c1 = Inr ?r" by (rule channel_ratio1_eq)
  obtain b m where bm: "select_coefficients (device_type s) (round_ratio ?r) = (b, m)"
    by (cases "select_coefficients (device_type s) (round_ratio ?r)")
  from select_coefficients_bounds [OF bm]
  have b: "0 \<le> b" "b \<le> 1022" and m: "0 \<le> m" "m \<le> 1022" by simp_all
  have pb: "unat ?c0 * unat (word_of_int b :: 32 word) < 2 ^ 32"
    using scaled_channel_less(1) b by (rule coefficient_product_less)
  have pm: "unat ?c1 * unat (word_of_int m :: 32 word) < 2 ^ 32"
    using scaled_channel_less(2) m by (rule coefficient_product_less)
  from pb pm show "coefficient_products_fit s visible infrared"
    by (simp add: coefficient_products_fit_def Let_def r1 bm)
  show "\<exists>b m. tsl2561_compute_lux (Some s) visible infrared = Inr (lux_of_channels ?c0 ?c1 b m)
           \<and> 0 \<le> b \<and> 0 \<le> m
           \<and> unat (?c0 * word_of_int b) = unat ?c0 * nat b
           \<and> unat (?c1 * word_of_int m) = unat ?c1 * nat m"
    if i: "init s"
  proof -
    have "tsl2561_compute_lux (Some s) visible infrared = Inr (lux_of_channels ?c0 ?c1 b m)"
      using i by (simp add: tsl2561_compute_lux_def is_init_def Let_def r1 bm)
    moreover have "unat (?c0 * word_of_int b) = unat ?c0 * nat b"
      using unat_exact_product [OF pb] by (simp only: unat_coefficient [OF b])
    moreover have "unat (?c1 * word_of_int m) = unat ?c1 * nat m"
      using unat_exact_product [OF pm] by (simp only: unat_coefficient [OF m])
    ultimately show ?thesis using b(1) m(1) by blast
  qed
next
  have scale: "unat (channel_scale s) =
     (if integration_time s = TSL2561_INTEGRATION_TIME_13MS then 29975
      else if integration_time s = TSL2561_INTEGRATION_TIME_101MS then 4071
      else 1024) * (if gain s = TSL2561_GAIN_1X then 16 else 1)"
    by (simp add: channel_scale_def scale_defs push_bit_eq_mult)
  {
    assume "gain s \<noteq> TSL2561_GAIN_1X
        \<or> integration_time s \<noteq> TSL2561_INTEGRATION_TIME_13MS"
    then show "scaling_products_fit s visible infrared"
      using range by (auto simp add: scaling_products_fit_def scale)
  next
    assume "gain s = TSL2561_GAIN_1X \<and> integration_time s = TSL2561_INTEGRATION_TIME_13MS"
    then show "scaling_products_fit s visible infrared
        \<longleftrightarrow> unat visible + unat infrared \<le> 8955"
      by (auto simp add: scaling_products_fit_def scale)
  }
next
  assume fit: "scaling_products_fit s visible infrared"
  then show "unat (scaled_channel0 (channel_scale s) visible infrared)
          = (unat visible + unat infrared) * unat (channel_scale s) div 2 ^ 10"
    by (simp add: unat_scaled_channel0 scaling_products_fit_def)
  from fit show "unat (scaled_channel1 (channel_scale s) infrared)
          = unat infrared * unat (channel_scale s) div 2 ^ 10"
    by (simp add: unat_scaled_channel1 scaling_products_fit_def)
qed

theorem products_fit_in_32_bits_witness:
  "unat (65535 :: 16 word) + unat (0 :: 16 word) \<le> 65535
   \<and> coefficient_products_fit (session 5 0 0) 65535 0
   \<and> scaling_products_fit (session 5 1 0) 65535 0
   \<and> unat (8000 :: 16 word) + unat (955 :: 16 word) \<le> 65535
   \<and> scaling_products_fit (session 5 0 0) 8000 955
   \<and> unat (8000 :: 16 word) + unat (956 :: 16 word) \<le> 65535
   \<and> \<not> scaling_products_fit (session 5 0 0) 8000 956
   \<and> init (session 5 0 0)"
proof -
  have ranges: "unat (65535 :: 16 word) + unat (0 :: 16 word) \<le> 65535"
      "unat (8000 :: 16 word) + unat (955 :: 16 word) \<le> 65535"
      "unat (8000 :: 16 word) + unat (956 :: 16 word) \<le> 65535"
    by simp_all
  have cfg: "gain (session 5 0 0) = TSL2561_GAIN_1X
      \<and> integration_time (session 5 0 0) = TSL2561_INTEGRATION_TIME_13MS"
    "gain (session 5 1 0) \<noteq> TSL2561_GAIN_1X
      \<or> integration_time (session 5 1 0) \<noteq> TSL2561_INTEGRATION_TIME_13MS"
    "init (session 5 0 0)"
    by (simp_all add: session_def enum_defs)
  note a = products_fit_in_32_bits [OF ranges(1), of "session 5 0 0"]
  note b = products_fit_in_32_bits [OF ranges(1), of "session 5 1 0"]
  note c = products_fit_in_32_bits [OF ranges(2), of "session 5 0 0"]
  note d = products_fit_in_32_bits [OF ranges(3), of "session 5 0 0"]
  have 1: "coefficient_products_fit (session 5 0 0) 65535 0" by (rule a [THEN conjunct1])
  have 2: "scaling_products_fit (session 5 1 0) 65535 0"
    using b [THEN conjunct2, THEN conjunct1] cfg(2) by (rule mp)
  have "scaling_products_fit (session 5 0 0) 8000 955
          \<longleftrightarrow> unat (8000 :: 16 word) + unat (955 :: 16 word) \<le> 8955"
    using c [THEN conjunct2, THEN conjunct2, THEN conjunct1] cfg(1) by (rule mp)
  then have 3: "scaling_products_fit (session 5 0 0) 8000 955" by simp
  have "scaling_products_fit (session 5 0 0) 8000 956
          \<longleftrightarrow> unat (8000 :: 16 word) + unat (956 :: 16 word) \<le> 8955"
    using d [THEN conjunct2, THEN conjunct2, THEN conjunct1] cfg(1) by (rule mp)
  then have 4: "\<not> scaling_products_fit (session 5 0 0) 8000 956" by simp
  from ranges(1) 1 2 ranges(2) 3 ranges(3) 4 cfg(3) show ?thesis by (intro conjI)
qed

section \<open>The delay of \<open>tsl2561_read\<close>\<close>

lemma read_delay_cases: "read_delay it = 15 \<or> read_delay it = 120 \<or> read_delay it = 450"
  by (simp add: read_delay_def)

lemma unat_delay_ticks:
  assumes t: "t \<noteq> 0" and d: "d = 15 \<or> d = 120 \<or> d = 450"
  shows "\<exists>ticks. delay_ticks t d = Inr ticks \<and> unat ticks = (unat d - 1) div unat t + 1"
proof -
  have d1: "unat (d - 1) = unat d - 1" using d by auto
  have "unat ((d - 1) div t) = (unat d - 1) div unat t"
    by (simp add: unat_div d1)
  moreover have "(unat d - 1) div unat t \<le> unat d - 1" by (rule div_le_dividend)
  moreover have "unat d - 1 < 450" using d by auto
  ultimately have q: "unat ((d - 1) div t) = (unat d - 1) div unat t"
      "unat ((d - 1) div t) < 450"
    by linarith+
  have "unat ((d - 1) div t + 1) = unat ((d - 1) div t) + 1"
    using q(2) by (simp add: unat_word_ariths)
  with q(1) show ?thesis using t by (simp add: delay_ticks_def udiv32_def)
qed

lemma round_up_quotient:
  fixes D T :: nat
  assumes "0 < T" "0 < D"
  shows "D \<le> ((D - 1) div T + 1) * T" "((D - 1) div T + 1 - 1) * T < D"
    "int ((D - 1) div T + 1) = \<lceil>real D / real T\<rceil>"
proof -
  have below: "(D - 1) div T * T \<le> D - 1" by simp
  have "D - 1 < D" using assms by linarith
  with below have strict: "(D - 1) div T * T < D" by linarith
  then show "((D - 1) div T + 1 - 1) * T < D" by simp
  have "D - 1 < ((D - 1) div T + 1) * T"
    using assms(1)
    by (metis Suc_eq_plus1 dividend_less_div_times mult.commute add.commute mult_Suc)
  then show above: "D \<le> ((D - 1) div T + 1) * T" by simp
  have T: "0 < real T" using assms by simp
  have "real_of_int (int ((D - 1) div T + 1)) - 1 < real D / real T"
  proof -
    have "real ((D - 1) div T * T) < real D" using strict by (simp only: of_nat_less_iff)
    then have "real ((D - 1) div T) * real T < real D" by simp
    then have "real ((D - 1) div T) < real D / real T" using T by (simp add: pos_less_divide_eq)
    then show ?thesis by simp
  qed
  moreover have "real D / real T \<le> real_of_int (int ((D - 1) div T + 1))"
  proof -
    have "real D \<le> real (((D - 1) div T + 1) * T)" using above by (simp only: of_nat_le_iff)
    then have "real D \<le> real ((D - 1) div T + 1) * real T" by (simp only: of_nat_mult)
    then have "real D / real T \<le> real ((D - 1) div T + 1)" using T by (simp add: pos_divide_le_eq)
    then show ?thesis by simp
  qed
  ultimately have "\<lceil>real D / real T\<rceil> = int ((D - 1) div T + 1)"
    by (rule ceiling_unique)
  then show "int ((D - 1) div T + 1) = \<lceil>real D / real T\<rceil>"
    by (rule sym)
qed

lemmas session_defs =
  is_init_def power_up_def power_down_def set_integration_time_and_gain_def
  smbus_defs reg_defs

lemma read_delays_before_channel0:
  assumes "init s"
    and "powered s \<or> fst (dev tr (Write_Byte (smbus_info s) 0x80 0x03)) = ESP_OK"
    and "delay_ticks tick (read_delay (integration_time s)) = Inr ticks"
  shows "\<exists>err info' visible' infrared' rest.
           tsl2561_read dev tick tr (Some s) (Some v) (Some i)
             = Inr (err, info', visible', infrared',
                    (if powered s then tr else tr @ [Write_Byte (smbus_info s) 0x80 0x03])
                      @ Task_Delay ticks # Read_Word (smbus_info s) 0xAC # rest)"
  using assms
  by (cases s) (auto simp add: tsl2561_read_def session_defs Let_def split: prod.splits)

section \<open>Claims about the device session\<close>

text \<open>
  C1, at the input where the code departs from it. For any session struct and bus
  handle, when the identification register reads 0x2A, whose upper four bits 0b0010
  are none of the four recognised encodings, \<open>tsl2561_init\<close> returns \<open>ESP_OK\<close>, not an
  error. The session is left with \<open>init\<close> true, \<open>device_type\<close> at the invalid sentinel
  and the default integration time and gain, after one read of register 0x0A.
\<close>

theorem init_unrecognised_package_returns_ok:
  "\<not> check_device_id (ucast (drop_bit 4 (0x2A :: 8 word) AND 0x0f))
   \<and> tsl2561_init unknown_package_bus tr (Some s0) h =
       (ESP_OK,
        Some \<lparr>init = True, powered = False, smbus_info = h,
              device_type = TSL2561_DEVICE_TYPE_INVALID,
              integration_time = TSL2561_INTEGRATION_TIME_402MS, gain = TSL2561_GAIN_1X\<rparr>,
        tr @ [Read_Byte h 0x8A])
   \<and> ESP_OK \<noteq> ESP_FAIL"
  by (cases s0)
    (simp add: tsl2561_init_def tsl2561_device_id_def is_init_def smbus_defs reg_defs
      check_device_id_def enum_defs ESP_OK_def ESP_FAIL_def unknown_package_bus_def)

text \<open>
  C4. For an initialised session, \<open>tsl2561_set_integration_time_and_gain\<close> behaves as
  follows. If the power-up write (0x03 to the control register, command 0x80) fails, its
  error is returned, the session is unchanged and the power-up write is the only
  transaction: no timing-register write is attempted. If the power-up succeeds (or the
  device was already powered), the timing register (command 0x81) is written with
  \<open>integration_time | gain\<close> and then the power-down (0x00 to the control register) is
  written, whatever the timing write returned; the result is the power-down error when
  the power-down fails and the result of the timing write otherwise, so when both fail it
  is the power-down error.
\<close>

theorem configure_error_precedence:
  assumes "init s"
  shows "let h = smbus_info s;
             up = Write_Byte h 0x80 0x03;
             timing = Write_Byte h 0x81 (ucast (it OR g));
             down = Write_Byte h 0x80 0x00;
             (err, info', tr') = tsl2561_set_integration_time_and_gain dev tr (Some s) it g
         in (\<not> powered s \<and> fst (dev tr up) \<noteq> ESP_OK \<longrightarrow>
               err = fst (dev tr up) \<and> tr' = tr @ [up] \<and> info' = Some s)
          \<and> (powered s \<or> fst (dev tr up) = ESP_OK \<longrightarrow>
               (let tr1 = (if powered s then tr else tr @ [up]);
                    werr = fst (dev tr1 timing);
                    pderr = fst (dev (tr1 @ [timing]) down)
                in tr' = tr1 @ [timing, down]
                 \<and> err = (if pderr \<noteq> ESP_OK then pderr else werr)
                 \<and> (werr \<noteq> ESP_OK \<and> pderr \<noteq> ESP_OK \<longrightarrow> err = pderr)))"
  using assms
  by (auto simp add: tsl2561_set_integration_time_and_gain_def session_defs Let_def
      split: if_splits prod.splits)

theorem configure_error_precedence_witness:
  "init (session 5 2 0)
   \<and> fst (dead_bus [] (Write_Byte 0 0x80 3)) \<noteq> ESP_OK
   \<and> tsl2561_set_integration_time_and_gain dead_bus [] (Some (session 5 2 0)) 1 16
       = (0x107, Some (session 5 2 0), [Write_Byte 0 0x80 3])
   \<and> fst (failing_bus [] (Write_Byte 0 0x80 3)) = ESP_OK
   \<and> tsl2561_set_integration_time_and_gain failing_bus [] (Some (session 5 2 0)) 1 16
       = (0x102, Some ((session 5 2 0)\<lparr>powered := True\<rparr>),
          [Write_Byte 0 0x80 3, Write_Byte 0 0x81 0x11, Write_Byte 0 0x80 0])"
  using configure_error_precedence [of "session 5 2 0" 1 16 dead_bus "[]"]
    configure_error_precedence [of "session 5 2 0" 1 16 failing_bus "[]"]
  by (simp add: session_def failing_bus_def dead_bus_def ESP_OK_def Let_def
      tsl2561_set_integration_time_and_gain_def session_defs split: prod.splits)

text \<open>
  C7. The blocking delay of \<open>tsl2561_read\<close> is 15 ms for the 13 ms setting, 120 ms for
  the 101 ms setting and 450 ms for the 402 ms setting and for every unrecognised value.
  For a tick period of a positive number of milliseconds, the tick count passed to the
  delay primitive, \<open>(delay - 1) / tick_ms + 1\<close>, is the ceiling of \<open>delay / tick_ms\<close>:
  the sleep it requests is at least the delay, and one tick less would be too short.
  For an initialised session whose power-up succeeds, the delay with this tick count is
  requested right after the power-up and before the first channel register (command
  0xAC) is read.
\<close>

theorem read_delay_is_ceiling:
  "read_delay it = (if it = TSL2561_INTEGRATION_TIME_13MS then 15
                    else if it = TSL2561_INTEGRATION_TIME_101MS then 120 else 450)
   \<and> (portTICK_RATE_MS \<noteq> 0 \<longrightarrow>
        (\<exists>ticks. delay_ticks portTICK_RATE_MS (read_delay it) = Inr ticks
           \<and> int (unat ticks) = \<lceil>real (unat (read_delay it)) / real (unat portTICK_RATE_MS)\<rceil>
           \<and> unat (read_delay it) \<le> unat ticks * unat portTICK_RATE_MS
           \<and> (unat ticks - 1) * unat portTICK_RATE_MS < unat (read_delay it)))
   \<and> (portTICK_RATE_MS \<noteq> 0 \<and> init s
        \<and> (powered s \<or> fst (dev tr (Write_Byte (smbus_info s) 0x80 0x03)) = ESP_OK) \<longrightarrow>
        (\<exists>ticks err info' visible' infrared' rest.
           delay_ticks portTICK_RATE_MS (read_delay (integration_time s)) = Inr ticks
           \<and> tsl2561_read dev portTICK_RATE_MS tr (Some s) (Some v) (Some i)
             = Inr (err, info', visible', infrared',
                    (if powered s then tr else tr @ [Write_Byte (smbus_info s) 0x80 0x03])
                      @ Task_Delay ticks # Read_Word (smbus_info s) 0xAC # rest)))"
proof (intro conjI impI)
  show "read_delay it = (if it = TSL2561_INTEGRATION_TIME_13MS then 15
                    else if it = TSL2561_INTEGRATION_TIME_101MS then 120 else 450)"
    by (simp add: read_delay_def)
next
  assume t: "portTICK_RATE_MS \<noteq> 0"
  let ?d = "read_delay it"
  from unat_delay_ticks [OF t read_delay_cases [of it]]
  obtain ticks where ticks: "delay_ticks portTICK_RATE_MS ?d = Inr ticks"
      "unat ticks = (unat ?d - 1) div unat portTICK_RATE_MS + 1"
    by blast
  have T: "0 < unat portTICK_RATE_MS" using t by (simp add: unat_gt_0)
  have D: "0 < unat ?d" using read_delay_cases [of it] by auto
  note c = round_up_quotient [OF T D]
  have "int (unat ticks) = \<lceil>real (unat ?d) / real (unat portTICK_RATE_MS)\<rceil>"
    using c(3) by (simp only: ticks(2))
  moreover have "unat ?d \<le> unat ticks * unat portTICK_RATE_MS"
    using c(1) by (simp only: ticks(2))
  moreover have "(unat ticks - 1) * unat portTICK_RATE_MS < unat ?d"
    using c(2) by (simp only: ticks(2))
  ultimately show "\<exists>ticks. delay_ticks portTICK_RATE_MS ?d = Inr ticks
           \<and> int (unat ticks) = \<lceil>real (unat ?d) / real (unat portTICK_RATE_MS)\<rceil>
           \<and> unat ?d \<le> unat ticks * unat portTICK_RATE_MS
           \<and> (unat ticks - 1) * unat portTICK_RATE_MS < unat ?d"
    using ticks(1) by blast
next
  assume a: "portTICK_RATE_MS \<noteq> 0 \<and> init s
        \<and> (powered s \<or> fst (dev tr (Write_Byte (smbus_info s) 0x80 0x03)) = ESP_OK)"
  from unat_delay_ticks [of portTICK_RATE_MS, OF _ read_delay_cases [of "integration_time s"]] a
  obtain ticks
    where ticks: "delay_ticks portTICK_RATE_MS (read_delay (integration_time s)) = Inr ticks"
    by blast
  from read_delays_before_channel0 [of s dev tr, OF _ _ ticks] a
  show "\<exists>ticks err info' visible' infrared' rest.
           delay_ticks portTICK_RATE_MS (read_delay (integration_time s)) = Inr ticks
           \<and> tsl2561_read dev portTICK_RATE_MS tr (Some s) (Some v) (Some i)
             = Inr (err, info', visible', infrared',
                    (if powered s then tr else tr @ [Write_Byte (smbus_info s) 0x80 0x03])
                      @ Task_Delay ticks # Read_Word (smbus_info s) 0xAC # rest)"
    using ticks by blast
qed

theorem read_delay_is_ceiling_witness:
  "(10 :: 32 word) \<noteq> 0
   \<and> delay_ticks 10 (read_delay TSL2561_INTEGRATION_TIME_13MS) = Inr 2
   \<and> delay_ticks 10 (read_delay TSL2561_INTEGRATION_TIME_101MS) = Inr 12
   \<and> delay_ticks 10 (read_delay TSL2561_INTEGRATION_TIME_402MS) = Inr 45
   \<and> delay_ticks 7 (read_delay 3) = Inr 65
   \<and> init (session 5 2 0)
   \<and> fst (ok_bus [] (Write_Byte (smbus_info (session 5 2 0)) 0x80 0x03)) = ESP_OK
   \<and> tsl2561_read ok_bus 10 [] (Some (session 5 2 0)) (Some 0) (Some 0)
      = Inr (ESP_OK, Some (session 5 2 0), Some 0, Some 0x1234,
             [Write_Byte 0 0x80 0x03, Task_Delay 45, Read_Word 0 0xAC, Read_Word 0 0xAE,
              Write_Byte 0 0x80 0x00])"
  using read_delay_is_ceiling [of 0 10 "session 5 2 0" ok_bus "[]" 0 0]
  by (simp add: session_def ok_bus_def enum_defs read_delay_def delay_ticks_def udiv32_def
      tsl2561_read_def session_defs ESP_OK_def Let_def)

text \<open>
  C8. Power symmetry. Whenever \<open>tsl2561_read\<close> returns \<open>ESP_OK\<close>, the session's
  \<open>powered\<close> flag is false afterwards, and whenever
  \<open>tsl2561_set_integration_time_and_gain\<close> returns \<open>ESP_OK\<close>, the flag is false
  afterwards as well. So a configuration, whatever it returned, followed by a successful
  read leaves the device powered down.
\<close>

theorem power_symmetry:
  "(tsl2561_read dev portTICK_RATE_MS tr tsl2561_info visible infrared
      = Inr (ESP_OK, info_r, visible_r, infrared_r, tr_r)
      \<longrightarrow> (\<exists>s'. info_r = Some s' \<and> \<not> powered s'))
   \<and> (tsl2561_set_integration_time_and_gain dev tr tsl2561_info it g = (ESP_OK, info_c, tr_c)
      \<longrightarrow> (\<exists>s'. info_c = Some s' \<and> \<not> powered s'))
   \<and> (tsl2561_set_integration_time_and_gain dev tr tsl2561_info it g = (err_c, info_c, tr_c)
       \<and> tsl2561_read dev portTICK_RATE_MS tr_c info_c visible infrared
           = Inr (ESP_OK, info_cr, visible_r, infrared_r, tr_cr)
      \<longrightarrow> (\<exists>s'. info_cr = Some s' \<and> \<not> powered s'))"
proof -
  have after_read: "\<exists>s'. b = Some s' \<and> \<not> powered s'"
    if "tsl2561_read dev portTICK_RATE_MS t a visible infrared = Inr (ESP_OK, b, x, y, t')"
    for a b t t' x y
  proof (cases a)
    case None
    with that show ?thesis
      by (simp add: tsl2561_read_def is_init_def ESP_OK_def ESP_FAIL_def)
  next
    case (Some s)
    with that show ?thesis
      by (auto simp add: tsl2561_read_def session_defs ESP_OK_def ESP_FAIL_def Let_def
          split: if_splits prod.splits sum.splits)
  qed
  have after_configure: "\<exists>s'. info_c = Some s' \<and> \<not> powered s'"
    if "tsl2561_set_integration_time_and_gain dev tr tsl2561_info it g = (ESP_OK, info_c, tr_c)"
  proof (cases tsl2561_info)
    case None
    with that show ?thesis
      by (simp add: tsl2561_set_integration_time_and_gain_def is_init_def ESP_OK_def
          ESP_FAIL_def)
  next
    case (Some s)
    with that show ?thesis
      by (auto simp add: tsl2561_set_integration_time_and_gain_def session_defs ESP_OK_def
          ESP_FAIL_def Let_def split: if_splits prod.splits)
  qed
  from after_read after_configure show ?thesis by blast
qed

theorem power_symmetry_witness:
  "tsl2561_read ok_bus 10 [] (Some (session 5 2 0)) (Some 0) (Some 0)
     = Inr (ESP_OK, Some (session 5 2 0), Some 0, Some 0x1234,
            [Write_Byte 0 0x80 3, Task_Delay 45, Read_Word 0 0xAC, Read_Word 0 0xAE,
             Write_Byte 0 0x80 0])
   \<and> tsl2561_set_integration_time_and_gain ok_bus [] (Some (session 5 2 0)) 1 16
     = (ESP_OK, Some (session 5 1 16),
        [Write_Byte 0 0x80 3, Write_Byte 0 0x81 0x11, Write_Byte 0 0x80 0])
   \<and> tsl2561_read ok_bus 10
        [Write_Byte 0 0x80 3, Write_Byte 0 0x81 0x11, Write_Byte 0 0x80 0]
        (Some (session 5 1 16)) (Some 0) (Some 0)
     = Inr (ESP_OK, Some (session 5 1 16), Some 0, Some 0x1234,
            [Write_Byte 0 0x80 3, Write_Byte 0 0x81 0x11, Write_Byte 0 0x80 0,
             Write_Byte 0 0x80 3, Task_Delay 12, Read_Word 0 0xAC, Read_Word 0 0xAE,
             Write_Byte 0 0x80 0])
   \<and> \<not> powered (session 5 2 0) \<and> \<not> powered (session 5 1 16)"
  using power_symmetry [where dev = ok_bus and portTICK_RATE_MS = 10 and tr = "[]"
      and tsl2561_info = "Some (session 5 2 0)" and visible = "Some 0" and infrared = "Some 0"
      and info_r = "Some (session 5 2 0)" and visible_r = "Some 0"
      and infrared_r = "Some 4660"
      and tr_r = "[Write_Byte 0 128 3, Task_Delay 45, Read_Word 0 172, Read_Word 0 174,
                   Write_Byte 0 128 0]"
      and it = 1 and g = 16 and err_c = ESP_OK and info_c = "Some (session 5 1 16)"
      and tr_c = "[Write_Byte 0 128 3, Write_Byte 0 129 17, Write_Byte 0 128 0]"
      and info_cr = "Some (session 5 1 16)"
      and tr_cr = "[Write_Byte 0 128 3, Write_Byte 0 129 17, Write_Byte 0 128 0,
                    Write_Byte 0 128 3, Task_Delay 12, Read_Word 0 172, Read_Word 0 174,
                    Write_Byte 0 128 0]"]
  by (simp add: session_def ok_bus_def enum_defs read_delay_def delay_ticks_def udiv32_def
      tsl2561_read_def tsl2561_set_integration_time_and_gain_def session_defs ESP_OK_def
      Let_def)

end
